theory Spec2Isabelle
  imports Main "HOL-Library.Sublist"
begin

section \<open>Data model\<close>

text \<open>
  The middleware functions of \<^verbatim>\<open>asus-press-hooks\<close> are Express handlers
  \<^verbatim>\<open>(req, res, next)\<close>. Each one either calls \<^verbatim>\<open>next()\<close> or ends the exchange with
  \<^verbatim>\<open>res.status(c).send(body)\<close>. A handler is modelled as a function from the request to
  that outcome. Diagnostic output (\<^verbatim>\<open>console.log\<close>, \<^verbatim>\<open>console.warn\<close>) is not part of the
  outcome and is left out.

  JavaScript strings are modelled as \<^typ>\<open>string\<close>, one \<^typ>\<open>char\<close> per character. This
  takes header values and paths to be strings of 8-bit characters, which is an
  assumption about the platform: the code that produces them is outside the repository.
\<close>

datatype json =
    JNull
  | JBool bool
  | JNum int
  | JStr string
  | JArr "json list"
  | JObj "(string \<times> json) list"

text \<open>
  The fields of \<^verbatim>\<open>req\<close> the handlers read. A header that was not sent is \<^verbatim>\<open>undefined\<close>
  (\<^term>\<open>None\<close>). A header sent with an empty value is taken to arrive as the empty
  string (\<^term>\<open>Some []\<close>): the source types \<^verbatim>\<open>req\<close> as \<^verbatim>\<open>any\<close>, so the value is
  admitted by the handlers' input type, but that the platform delivers it is an
  assumption of the model.
  \<^verbatim>\<open>req.body\<close> is \<^verbatim>\<open>undefined\<close> (\<^term>\<open>None\<close>) when no body parser has run.
  The field \<^verbatim>\<open>req.method\<close> is written \<open>method'\<close>.
\<close>

record request =
  method' :: string
  originalUrl :: string
  origin :: "string option"
  referer :: "string option"
  content_type :: "string option"
  body :: "json option"

datatype outcome =
    Next
  | Send int json

text \<open>The object literal \<^verbatim>\<open>{ error: msg }\<close>.\<close>

definition error_body :: "string \<Rightarrow> json" where
  "error_body msg = JObj [(''error'', JStr msg)]"

section \<open>JavaScript primitives used by the handlers\<close>

text \<open>
  Truthiness of a value of type \<^verbatim>\<open>string | undefined\<close>: \<^verbatim>\<open>undefined\<close> and the empty
  string are falsy.
\<close>

definition truthy :: "string option \<Rightarrow> bool" where
  "truthy h = (case h of None \<Rightarrow> False | Some s \<Rightarrow> s \<noteq> [])"

text \<open>The operator \<^verbatim>\<open>a || b\<close> on such values.\<close>

definition js_or :: "string option \<Rightarrow> string option \<Rightarrow> string option" where
  "js_or a b = (if truthy a then a else b)"

text \<open>
  \<^verbatim>\<open>String.prototype.toLowerCase\<close>, modelled on 8-bit characters: the letters A to Z and the
  upper-case letters of the range 0xC0 to 0xDE (0xD7, the multiplication sign, apart)
  move up by 32; every other character is kept.
\<close>

definition toLowerCase_char :: "char \<Rightarrow> char" where
  "toLowerCase_char c =
     (let n = (of_char c :: nat) in
      if (65 \<le> n \<and> n \<le> 90) \<or> (192 \<le> n \<and> n \<le> 222 \<and> n \<noteq> 215)
      then char_of (n + 32) else c)"

definition toLowerCase :: "string \<Rightarrow> string" where
  "toLowerCase s = map toLowerCase_char s"

text \<open>\<^verbatim>\<open>haystack.includes(needle)\<close>: the needle occurs as a contiguous substring.\<close>

definition str_includes :: "string \<Rightarrow> string \<Rightarrow> bool" where
  "str_includes haystack needle = sublist needle haystack"

section \<open>check-origin.ts\<close>

definition FORM_CONTENT_TYPES :: "string list" where
  "FORM_CONTENT_TYPES =
     [''application/x-www-form-urlencoded'', ''multipart/form-data'', ''text/plain'']"

definition SAFE_METHODS :: "string list" where
  "SAFE_METHODS = [''GET'', ''HEAD'', ''OPTIONS'']"

text \<open>
  \<^verbatim>\<open>hasFormLikeHeader\<close>: the loop over \<^verbatim>\<open>FORM_CONTENT_TYPES\<close> returns true at the first
  entry that the lower-cased header includes; a falsy argument gives false.
\<close>

definition hasFormLikeHeader :: "string option \<Rightarrow> bool" where
  "hasFormLikeHeader contentType =
     (case contentType of
        None \<Rightarrow> False
      | Some ct \<Rightarrow>
          if ct \<noteq> [] then list_ex (\<lambda>formContentType. str_includes (toLowerCase ct) formContentType)
                             FORM_CONTENT_TYPES
          else False)"

text \<open>
  The callback of \<^verbatim>\<open>allowedOrigins.some\<close>. The parameter \<open>URL_hostname\<close> stands for
  the platform's \<^verbatim>\<open>new URL(s).hostname\<close>: \<^term>\<open>None\<close> when the constructor throws,
  the host name otherwise. When the entry does not parse, the \<^verbatim>\<open>catch\<close> branch
  compares the entry itself.
\<close>

definition origin_entry_matches :: "(string \<Rightarrow> string option) \<Rightarrow> string \<Rightarrow> string \<Rightarrow> bool" where
  "origin_entry_matches URL_hostname sourceHost allowedOrigin =
     (case URL_hostname allowedOrigin of
        Some allowedHost \<Rightarrow> sourceHost = allowedHost
      | None \<Rightarrow> sourceHost = allowedOrigin)"

definition unauthorized_origin :: outcome where
  "unauthorized_origin = Send 403 (error_body ''Access denied: unauthorized origin.'')"

definition cross_site_forbidden :: "string \<Rightarrow> outcome" where
  "cross_site_forbidden m =
     Send 403 (error_body (''Cross-site '' @ m @ '' form submissions are forbidden''))"

text \<open>
  \<^verbatim>\<open>createCheckOriginMiddleware(allowedOrigins, requestUrl)\<close> applied to a request. The
  branches follow the source in order: safe methods, then allowlist validation when
  \<^verbatim>\<open>allowedOrigins.length > 0\<close>, else the CSRF check.
\<close>

definition createCheckOriginMiddleware ::
  "(string \<Rightarrow> string option) \<Rightarrow> string list \<Rightarrow> string \<Rightarrow> request \<Rightarrow> outcome" where
  "createCheckOriginMiddleware URL_hostname allowedOrigins requestUrl req =
     (if method' req \<in> set SAFE_METHODS then Next
      else if length allowedOrigins > 0 then
        (if \<not> truthy (origin req) \<and> \<not> truthy (referer req) then Next
         else
           (case js_or (origin req) (referer req) of
              None \<Rightarrow> Next
            | Some sourceUrl \<Rightarrow>
                if sourceUrl = [] then Next
                else
                  (case URL_hostname sourceUrl of
                     None \<Rightarrow> unauthorized_origin
                   | Some sourceHost \<Rightarrow>
                       if \<not> list_ex (origin_entry_matches URL_hostname sourceHost) allowedOrigins
                       then unauthorized_origin
                       else Next)))
      else
        (if \<not> truthy (origin req) then Next
         else
           (let isSameOrigin = (origin req = Some requestUrl);
                contentType = content_type req
            in if truthy contentType then
                 (if hasFormLikeHeader contentType \<and> \<not> isSameOrigin
                  then cross_site_forbidden (method' req)
                  else Next)
               else
                 (if \<not> isSameOrigin then cross_site_forbidden (method' req) else Next))))"

text \<open>
  A finite excerpt of the platform's URL parser, for evaluating the handlers on concrete
  requests: the absolute URLs listed parse to the host name given; the other strings
  used below (the empty string, bare host names, \<^verbatim>\<open>not a url\<close>) have no scheme and
  are taken to make \<^verbatim>\<open>new URL\<close> throw. The table is an assumption about the platform's
  parser, which is outside the repository.
\<close>

definition example_URL_hostname :: "string \<Rightarrow> string option" where
  "example_URL_hostname s =
     map_of
       [(''https://asus-press-cms.tenten.dev'', ''asus-press-cms.tenten.dev''),
        (''https://asus-press-cms.tenten.dev/admin/login'', ''asus-press-cms.tenten.dev''),
        (''http://asus-press-cms.tenten.dev:8055'', ''asus-press-cms.tenten.dev''),
        (''https://malicious-site.com'', ''malicious-site.com''),
        (''http://localhost:8055'', ''localhost'')] s"

definition example_request :: request where
  "example_request =
     \<lparr>method' = ''POST'', originalUrl = ''/auth/login'', origin = None, referer = None,
      content_type = None, body = None\<rparr>"

section \<open>Regular expressions\<close>

text \<open>
  The fragment of ECMAScript regular expressions that \<^verbatim>\<open>endpoint-validation.ts\<close> uses,
  without flags: literal characters, \<^verbatim>\<open>^\<close>, \<^verbatim>\<open>$\<close>, sequence, alternation, the negative
  lookahead \<^verbatim>\<open>(?!r)\<close> and \<^verbatim>\<open>.*\<close>.
\<close>

datatype regex =
    Chr char
  | Bol
  | Eol
  | Cat regex regex
  | Alt regex regex
  | NegLookahead regex
  | DotStar

text \<open>
  A matcher state is the index reached in the input and the input that remains. The
  dot matches every character but a line terminator.
\<close>

type_synonym mstate = "nat \<times> string"

definition isLineTerminator :: "char \<Rightarrow> bool" where
  "isLineTerminator c = (c = CHR 0x0A \<or> c = CHR 0x0D)"

text \<open>\<^verbatim>\<open>.*\<close> is greedy: the longest run of characters is tried first.\<close>

fun dotStar :: "mstate \<Rightarrow> mstate list" where
  "dotStar (i, []) = [(i, [])]"
| "dotStar (i, x # xs) =
     (if isLineTerminator x then [(i, x # xs)] else dotStar (Suc i, xs) @ [(i, x # xs)])"

text \<open>
  \<open>rmatch r st\<close> lists the states in which a match of \<open>r\<close> started at \<open>st\<close> can end,
  in the order backtracking tries them. Without the \<^verbatim>\<open>m\<close> flag, \<^verbatim>\<open>^\<close> holds at index
  0 only and \<^verbatim>\<open>$\<close> at the end of the input only. A lookahead consumes nothing.
\<close>

fun rmatch :: "regex \<Rightarrow> mstate \<Rightarrow> mstate list" where
  "rmatch (Chr c) (i, s) =
     (case s of [] \<Rightarrow> [] | x # xs \<Rightarrow> if x = c then [(Suc i, xs)] else [])"
| "rmatch Bol (i, s) = (if i = 0 then [(i, s)] else [])"
| "rmatch Eol (i, s) = (if s = [] then [(i, s)] else [])"
| "rmatch (Cat a b) st = concat (map (rmatch b) (rmatch a st))"
| "rmatch (Alt a b) st = rmatch a st @ rmatch b st"
| "rmatch (NegLookahead a) st = (if rmatch a st = [] then [st] else [])"
| "rmatch DotStar st = dotStar st"

text \<open>A run of literal characters.\<close>

fun lit :: "string \<Rightarrow> regex \<Rightarrow> regex" where
  "lit [] r = r"
| "lit (c # cs) r = Cat (Chr c) (lit cs r)"

text \<open>
  \<^verbatim>\<open>RegExp.prototype.test\<close> of a regular expression without the \<^verbatim>\<open>g\<close> and \<^verbatim>\<open>y\<close> flags:
  a match is looked for at every start index, from 0 to the length of the input.
\<close>

fun test_from :: "regex \<Rightarrow> nat \<Rightarrow> string \<Rightarrow> bool" where
  "test_from r i [] = (rmatch r (i, []) \<noteq> [])"
| "test_from r i (x # xs) = (rmatch r (i, x # xs) \<noteq> [] \<or> test_from r (Suc i) xs)"

definition test :: "regex \<Rightarrow> string \<Rightarrow> bool" where
  "test r s = test_from r 0 s"

section \<open>endpoint-validation.ts\<close>

text \<open>The literal \<^verbatim>\<open>/^\/graphql\/(?!system(?:\/|$)).*/\<close>.\<close>

definition graphql_subpath_regex :: regex where
  "graphql_subpath_regex =
     Cat Bol
       (lit ''/graphql/''
          (Cat (NegLookahead (lit ''system'' (Alt (Chr CHR ''/'') Eol))) DotStar))"

definition createGraphQLEndpointValidation :: "request \<Rightarrow> outcome" where
  "createGraphQLEndpointValidation req =
     (if test graphql_subpath_regex (originalUrl req)
      then Send 400 (error_body ''Invalid endpoint.'')
      else Next)"

section \<open>property-validation.ts\<close>

text \<open>
  Truthiness of a parsed body. Numbers are modelled by integers: of the numbers only
  zero is falsy, and no number has a key.
\<close>

fun json_truthy :: "json \<Rightarrow> bool" where
  "json_truthy JNull = False"
| "json_truthy (JBool b) = b"
| "json_truthy (JNum n) = (n \<noteq> 0)"
| "json_truthy (JStr s) = (s \<noteq> [])"
| "json_truthy (JArr xs) = True"
| "json_truthy (JObj kvs) = True"

text \<open>\<^verbatim>\<open>req.body || {}\<close>.\<close>

definition body_or_empty :: "json option \<Rightarrow> json" where
  "body_or_empty b =
     (case b of None \<Rightarrow> JObj [] | Some v \<Rightarrow> if json_truthy v then v else JObj [])"

text \<open>The decimal numeral of an array index.\<close>

fun index_string :: "nat \<Rightarrow> string" where
  "index_string n =
     (if n < 10 then [char_of (48 + n)]
      else index_string (n div 10) @ [char_of (48 + n mod 10)])"

declare index_string.simps [simp del]

text \<open>
  \<^verbatim>\<open>Object.keys\<close>: the keys of an object, the indices of an array or of a string, and
  nothing for a number or a boolean. \<^verbatim>\<open>null\<close> never reaches it here, being falsy.
\<close>

fun Object_keys :: "json \<Rightarrow> string list" where
  "Object_keys (JObj kvs) = map fst kvs"
| "Object_keys (JArr xs) = map index_string [0..<length xs]"
| "Object_keys (JStr s) = map index_string [0..<length s]"
| "Object_keys (JNum n) = []"
| "Object_keys (JBool b) = []"
| "Object_keys JNull = []"

definition invalid_properties :: outcome where
  "invalid_properties = Send 400 (error_body ''Request contains invalid properties.'')"

definition createGraphQLPropertyValidation :: "request \<Rightarrow> outcome" where
  "createGraphQLPropertyValidation req =
     (let allowedProps = [''query'', ''variables'', ''operationName''];
          props = Object_keys (body_or_empty (body req));
          isAllowed = list_all (\<lambda>prop. prop \<in> set allowedProps) props
      in if \<not> isAllowed then invalid_properties else Next)"

definition createAuthLoginPropertyValidation :: "request \<Rightarrow> outcome" where
  "createAuthLoginPropertyValidation req =
     (let allowedProps = [''email'', ''password'', ''mode''];
          props = Object_keys (body_or_empty (body req));
          isAllowed = list_all (\<lambda>prop. prop \<in> set allowedProps) props
      in if \<not> isAllowed then invalid_properties else Next)"

section \<open>The status rewriter\<close>

text \<open>The part of \<^verbatim>\<open>res\<close> the rewriter reads and writes.\<close>

record response =
  statusCode :: int

text \<open>
  \<^verbatim>\<open>createError("ROUTE_NOT_FOUND", "Not found.", 404)\<close>: the message of an instance of
  the error class is the second argument.
\<close>

definition NotFoundError_message :: string where
  "NotFoundError_message = ''Not found.''"

text \<open>
  The function the middleware installs as \<^verbatim>\<open>res.send\<close>. \<open>originalSend\<close> is the
  framework's \<^verbatim>\<open>send\<close> bound to \<^verbatim>\<open>res\<close>; it receives the response as it is at the
  call and the body, \<^term>\<open>None\<close> when \<^verbatim>\<open>send\<close> is called without an argument.
\<close>

definition rewritten_send ::
  "(response \<Rightarrow> json option \<Rightarrow> 'w) \<Rightarrow> request \<Rightarrow> response \<Rightarrow> json option \<Rightarrow> 'w" where
  "rewritten_send originalSend req res body' =
     (if statusCode res = 403 then
        originalSend (res\<lparr>statusCode := 404\<rparr>)
          (Some (JObj
            [(''errors'',
              JArr [JObj
                [(''message'', JStr NotFoundError_message),
                 (''extensions'',
                  JObj [(''code'', JStr ''ROUTE_NOT_FOUND''),
                        (''path'', JStr (originalUrl req))])]])]))
      else originalSend res body')"

text \<open>
  \<^verbatim>\<open>createStatusRewriteMiddleware\<close>: the handler replaces \<^verbatim>\<open>res.send\<close> and calls
  \<^verbatim>\<open>next()\<close>.
\<close>

definition createStatusRewriteMiddleware ::
  "(response \<Rightarrow> json option \<Rightarrow> 'w) \<Rightarrow> request \<Rightarrow> (response \<Rightarrow> json option \<Rightarrow> 'w) \<times> outcome" where
  "createStatusRewriteMiddleware originalSend req = (rewritten_send originalSend req, Next)"

text \<open>
  The framework's \<^verbatim>\<open>send\<close> as far as the examples below need it: the body goes out
  with the status code the response holds at the call.
\<close>

definition example_send :: "response \<Rightarrow> json option \<Rightarrow> int \<times> json option" where
  "example_send res body' = (statusCode res, body')"

section \<open>Safe methods\<close>

lemma safe_method_iff:
  "m \<in> set SAFE_METHODS \<longleftrightarrow> m = ''GET'' \<or> m = ''HEAD'' \<or> m = ''OPTIONS''"
  by (auto simp: SAFE_METHODS_def)

text \<open>
  C3. A request whose method is GET, HEAD or OPTIONS is passed on to the next handler,
  whatever its Origin, Referer and Content-Type headers are and whether the list of
  allowed origins is empty or not.
\<close>

theorem safe_methods_pass:
  assumes "method' req = ''GET'' \<or> method' req = ''HEAD'' \<or> method' req = ''OPTIONS''"
  shows "createCheckOriginMiddleware URL_hostname allowedOrigins requestUrl req = Next"
  using assms by (simp add: createCheckOriginMiddleware_def safe_method_iff)

theorem safe_methods_pass_witness:
  "createCheckOriginMiddleware example_URL_hostname [''asus-press-cms.tenten.dev''] ''http://localhost:8055''
     (example_request\<lparr>method' := ''GET'', origin := Some ''https://malicious-site.com'',
        content_type := Some ''text/plain''\<rparr>) = Next
   \<and> createCheckOriginMiddleware example_URL_hostname [] ''http://localhost:8055''
     (example_request\<lparr>method' := ''OPTIONS'', origin := Some ''https://malicious-site.com''\<rparr>) = Next"
  using safe_methods_pass [of "example_request\<lparr>method' := ''GET'', origin := Some ''https://malicious-site.com'',
        content_type := Some ''text/plain''\<rparr>" example_URL_hostname "[''asus-press-cms.tenten.dev'']" "''http://localhost:8055''"]
    safe_methods_pass [of "example_request\<lparr>method' := ''OPTIONS'', origin := Some ''https://malicious-site.com''\<rparr>"
       example_URL_hostname "[]" "''http://localhost:8055''"]
  by (simp add: example_request_def)

section \<open>The GraphQL sub-path check\<close>

text \<open>What the matcher does on a run of literal characters, on \<^verbatim>\<open>.*\<close> and on \<^verbatim>\<open>^\<close>.\<close>

lemma rmatch_lit:
  "rmatch (lit w r) (i, s) =
     (if prefix w s then rmatch r (i + length w, drop (length w) s) else [])"
proof (induction w arbitrary: i s)
  case Nil
  show ?case by simp
next
  case (Cons c cs)
  show ?case
  proof (cases s)
    case Nil
    then show ?thesis by simp
  next
    case (Cons x xs)
    with Cons.IH [of "Suc i" xs] show ?thesis by simp
  qed
qed

lemma dotStar_nonempty: "dotStar st \<noteq> []"
  by (induction st rule: dotStar.induct) auto

lemma test_from_Bol: "0 < i \<Longrightarrow> \<not> test_from (Cat Bol r) i s"
  by (induction s arbitrary: i) auto

lemma test_Bol: "test (Cat Bol r) s = (rmatch r (0, s) \<noteq> [])"
  by (cases s) (auto simp: test_def test_from_Bol)

lemma rmatch_lit_then_end:
  "rmatch (lit w (Alt (Chr c) Eol)) (i, s) \<noteq> [] \<longleftrightarrow> s = w \<or> prefix (w @ [c]) s"
proof (cases "prefix w s")
  case False
  then have "\<not> prefix (w @ [c]) s" and "s \<noteq> w"
    by (auto simp: prefix_def)
  with False show ?thesis by (simp add: rmatch_lit)
next
  case True
  then obtain t where s: "s = w @ t" by (auto simp: prefix_def)
  have "rmatch (Alt (Chr c) Eol) (j, t) \<noteq> [] \<longleftrightarrow> t = [] \<or> prefix [c] t" for j
    by (cases t) auto
  with s show ?thesis by (simp add: rmatch_lit)
qed

lemma rmatch_neg_then_dotStar:
  "rmatch (Cat (NegLookahead a) DotStar) st \<noteq> [] \<longleftrightarrow> rmatch a st = []"
  by (simp add: dotStar_nonempty)

lemma test_anchored_lit_neg:
  "test (Cat Bol (lit w (Cat (NegLookahead a) DotStar))) url \<longleftrightarrow>
     (\<exists>rest. url = w @ rest \<and> rmatch a (length w, rest) = [])"
proof (cases "prefix w url")
  case False
  then show ?thesis by (auto simp: test_Bol rmatch_lit)
next
  case True
  then obtain t where "url = w @ t" by (auto simp: prefix_def)
  then show ?thesis
    by (simp add: test_Bol rmatch_lit del: rmatch.simps(4)) (simp add: dotStar_nonempty)
qed

lemma test_graphql_subpath_regex:
  "test graphql_subpath_regex url \<longleftrightarrow>
     (\<exists>rest. url = ''/graphql/'' @ rest \<and> rest \<noteq> ''system'' \<and> \<not> prefix ''system/'' rest)"
proof -
  have "rmatch (lit ''system'' (Alt (Chr CHR ''/'') Eol)) (i, rest) = [] \<longleftrightarrow>
          rest \<noteq> ''system'' \<and> \<not> prefix ''system/'' rest" for i rest
  proof -
    have "''system'' @ [CHR ''/''] = ''system/''" by simp
    with rmatch_lit_then_end [of "''system''" "CHR ''/''" i rest] show ?thesis
      by (simp only:) blast
  qed
  then show ?thesis
    unfolding graphql_subpath_regex_def test_anchored_lit_neg by simp
qed

text \<open>The first segment of a sub-path is \<^verbatim>\<open>system\<close> exactly in the two exempt shapes.\<close>

lemma first_segment_system:
  "takeWhile (\<lambda>c. c \<noteq> CHR ''/'') rest = ''system'' \<longleftrightarrow> rest = ''system'' \<or> prefix ''system/'' rest"
proof
  assume h: "takeWhile (\<lambda>c. c \<noteq> CHR ''/'') rest = ''system''"
  have split: "rest = takeWhile (\<lambda>c. c \<noteq> CHR ''/'') rest @ dropWhile (\<lambda>c. c \<noteq> CHR ''/'') rest"
    by simp
  show "rest = ''system'' \<or> prefix ''system/'' rest"
  proof (cases "dropWhile (\<lambda>c. c \<noteq> CHR ''/'') rest")
    case Nil
    with split h show ?thesis by simp
  next
    case (Cons x xs)
    then have "x = CHR ''/''"
      using hd_dropWhile [of "\<lambda>c. c \<noteq> CHR ''/''" rest] by auto
    with split h Cons have "rest = ''system/'' @ xs" by simp
    then show ?thesis by (simp add: prefix_def)
  qed
next
  assume "rest = ''system'' \<or> prefix ''system/'' rest"
  then show "takeWhile (\<lambda>c. c \<noteq> CHR ''/'') rest = ''system''"
    by (auto simp: prefix_def)
qed


text \<open>
  C6. The check reads the request's full original URL. A path \<^verbatim>\<open>/graphql/<rest>\<close> whose
  first segment of \<open>rest\<close> (the characters before the first slash) is not \<^verbatim>\<open>system\<close> is
  answered with status 400 and the body \<^verbatim>\<open>{ "error": "Invalid endpoint." }\<close>. The paths
  \<^verbatim>\<open>/graphql/system\<close> and \<^verbatim>\<open>/graphql/system/<rest>\<close> are passed on, and so is the bare
  path \<^verbatim>\<open>/graphql\<close>, which the expression does not match.
\<close>

theorem graphql_subpath_check:
  "(takeWhile (\<lambda>c. c \<noteq> CHR ''/'') rest \<noteq> ''system'' \<longrightarrow>
      createGraphQLEndpointValidation (req\<lparr>originalUrl := ''/graphql/'' @ rest\<rparr>) =
        Send 400 (JObj [(''error'', JStr ''Invalid endpoint.'')]))
   \<and> createGraphQLEndpointValidation (req\<lparr>originalUrl := ''/graphql/system''\<rparr>) = Next
   \<and> createGraphQLEndpointValidation (req\<lparr>originalUrl := ''/graphql/system/'' @ rest\<rparr>) = Next
   \<and> createGraphQLEndpointValidation (req\<lparr>originalUrl := ''/graphql''\<rparr>) = Next"
proof -
  have reject: "createGraphQLEndpointValidation (req\<lparr>originalUrl := ''/graphql/'' @ rest\<rparr>) =
        Send 400 (JObj [(''error'', JStr ''Invalid endpoint.'')])"
    if "takeWhile (\<lambda>c. c \<noteq> CHR ''/'') rest \<noteq> ''system''"
  proof -
    from that have "rest \<noteq> ''system'' \<and> \<not> prefix ''system/'' rest"
      by (simp only: first_segment_system) simp
    then have "test graphql_subpath_regex (''/graphql/'' @ rest)"
      unfolding test_graphql_subpath_regex by blast
    then show ?thesis
      by (simp add: createGraphQLEndpointValidation_def error_body_def)
  qed
  have exempt: "\<not> test graphql_subpath_regex (''/graphql/'' @ sub)"
    if "sub = ''system'' \<or> prefix ''system/'' sub" for sub
    using that unfolding test_graphql_subpath_regex by auto
  have "\<not> test graphql_subpath_regex (''/graphql/'' @ ''system'')"
    by (rule exempt) simp
  then have system: "createGraphQLEndpointValidation (req\<lparr>originalUrl := ''/graphql/system''\<rparr>) = Next"
    by (simp add: createGraphQLEndpointValidation_def)
  have "\<not> test graphql_subpath_regex (''/graphql/'' @ (''system/'' @ rest))"
    by (rule exempt) (simp add: prefix_def)
  then have below: "createGraphQLEndpointValidation (req\<lparr>originalUrl := ''/graphql/system/'' @ rest\<rparr>) = Next"
    by (simp add: createGraphQLEndpointValidation_def)
  have "\<not> test graphql_subpath_regex ''/graphql''"
    unfolding test_graphql_subpath_regex by simp
  then have bare: "createGraphQLEndpointValidation (req\<lparr>originalUrl := ''/graphql''\<rparr>) = Next"
    by (simp add: createGraphQLEndpointValidation_def)
  from reject system below bare show ?thesis by blast
qed

theorem graphql_subpath_check_witness:
  "createGraphQLEndpointValidation (example_request\<lparr>originalUrl := ''/graphql/malicious''\<rparr>) =
     Send 400 (JObj [(''error'', JStr ''Invalid endpoint.'')])
   \<and> createGraphQLEndpointValidation (example_request\<lparr>originalUrl := ''/graphql/system''\<rparr>) = Next
   \<and> createGraphQLEndpointValidation (example_request\<lparr>originalUrl := ''/graphql/system/malicious''\<rparr>) = Next
   \<and> createGraphQLEndpointValidation (example_request\<lparr>originalUrl := ''/graphql''\<rparr>) = Next"
  using graphql_subpath_check [of "''malicious''" example_request]
  by simp

text \<open>
  C9. The path \<^verbatim>\<open>/graphql/\<close>, with a trailing slash and an empty sub-path, is matched by
  the regular expression, the empty sub-path not being \<^verbatim>\<open>system\<close>, and the request is
  answered with status 400.
\<close>

theorem graphql_trailing_slash_rejected:
  assumes "originalUrl req = ''/graphql/''"
  shows "test graphql_subpath_regex (originalUrl req)
         \<and> createGraphQLEndpointValidation req = Send 400 (JObj [(''error'', JStr ''Invalid endpoint.'')])"
proof -
  have "test graphql_subpath_regex (''/graphql/'' @ [])"
    unfolding test_graphql_subpath_regex by (intro exI [of _ "[]"]) simp
  with assms show ?thesis
    by (simp add: createGraphQLEndpointValidation_def error_body_def)
qed

theorem graphql_trailing_slash_rejected_witness:
  "test graphql_subpath_regex ''/graphql/''
   \<and> createGraphQLEndpointValidation (example_request\<lparr>originalUrl := ''/graphql/''\<rparr>) =
       Send 400 (JObj [(''error'', JStr ''Invalid endpoint.'')])"
  using graphql_trailing_slash_rejected [of "example_request\<lparr>originalUrl := ''/graphql/''\<rparr>"]
  by simp

section \<open>The two modes of the origin check\<close>

text \<open>
  For a method outside the safe set the handler is, with a non-empty list, the allowlist
  validation and, with the empty list, the CSRF check.
\<close>

lemma allowlist_mode:
  assumes "allowedOrigins \<noteq> []" and "method' req \<notin> set SAFE_METHODS"
  shows "createCheckOriginMiddleware URL_hostname allowedOrigins requestUrl req =
     (case js_or (origin req) (referer req) of
        None \<Rightarrow> Next
      | Some sourceUrl \<Rightarrow>
          if sourceUrl = [] then Next
          else
            (case URL_hostname sourceUrl of
               None \<Rightarrow> unauthorized_origin
             | Some sourceHost \<Rightarrow>
                 if list_ex (origin_entry_matches URL_hostname sourceHost) allowedOrigins
                 then Next else unauthorized_origin))"
  using assms
  by (auto simp: createCheckOriginMiddleware_def js_or_def truthy_def split: option.splits)

lemma csrf_mode:
  assumes "method' req \<notin> set SAFE_METHODS"
  shows "createCheckOriginMiddleware URL_hostname [] requestUrl req =
     (if \<not> truthy (origin req) \<or> origin req = Some requestUrl then Next
      else if truthy (content_type req) \<and> \<not> hasFormLikeHeader (content_type req) then Next
      else cross_site_forbidden (method' req))"
  using assms
  by (auto simp: createCheckOriginMiddleware_def Let_def)

lemma entry_matches_iff:
  "origin_entry_matches URL_hostname sourceHost e \<longleftrightarrow>
     (\<exists>h. URL_hostname e = Some h \<and> sourceHost = h) \<or> (URL_hostname e = None \<and> sourceHost = e)"
  by (auto simp: origin_entry_matches_def split: option.splits)

lemma unsafe_method_iff:
  "m \<notin> set SAFE_METHODS \<longleftrightarrow> m \<notin> {''GET'', ''HEAD'', ''OPTIONS''}"
  by (simp add: SAFE_METHODS_def)

text \<open>
  C1. Allowlist mode, for a request whose method is not safe. With neither an Origin nor
  a Referer header the request is passed on. When the source URL (the Origin header if
  there is one, else the Referer header) parses, the request is passed on if its host
  name matches an entry of the list, and answered with status 403 and the body
  \<^verbatim>\<open>{ "error": "Access denied: unauthorized origin." }\<close> if none matches. An entry
  matches when it parses as a URL with that host name or, not parsing, is equal to the
  host name. The third assumption, that the URL constructor fails on the empty string,
  is an assumption about the platform and is stated as a hypothesis for that reason.
\<close>

theorem allowlist_mode_decision:
  assumes "allowedOrigins \<noteq> []"
    and "method' req \<notin> {''GET'', ''HEAD'', ''OPTIONS''}"
    and "URL_hostname [] = None"
  shows "(origin req = None \<and> referer req = None \<longrightarrow>
            createCheckOriginMiddleware URL_hostname allowedOrigins requestUrl req = Next)
       \<and> ((case origin req of Some v \<Rightarrow> Some v | None \<Rightarrow> referer req) = Some sourceUrl
            \<and> URL_hostname sourceUrl = Some sourceHost \<longrightarrow>
            createCheckOriginMiddleware URL_hostname allowedOrigins requestUrl req =
              (if \<exists>e \<in> set allowedOrigins.
                    (\<exists>h. URL_hostname e = Some h \<and> sourceHost = h)
                    \<or> (URL_hostname e = None \<and> sourceHost = e)
               then Next
               else Send 403 (JObj [(''error'', JStr ''Access denied: unauthorized origin.'')])))"
proof -
  have unsafe: "method' req \<notin> set SAFE_METHODS"
    using assms(2) by (simp add: unsafe_method_iff)
  note mode = allowlist_mode [OF assms(1) unsafe, of URL_hostname requestUrl]
  have absent: "createCheckOriginMiddleware URL_hostname allowedOrigins requestUrl req = Next"
    if "origin req = None \<and> referer req = None"
    using that by (simp add: mode js_or_def truthy_def)
  have present: "createCheckOriginMiddleware URL_hostname allowedOrigins requestUrl req =
              (if \<exists>e \<in> set allowedOrigins.
                    (\<exists>h. URL_hostname e = Some h \<and> sourceHost = h)
                    \<or> (URL_hostname e = None \<and> sourceHost = e)
               then Next
               else Send 403 (JObj [(''error'', JStr ''Access denied: unauthorized origin.'')]))"
    if src: "(case origin req of Some v \<Rightarrow> Some v | None \<Rightarrow> referer req) = Some sourceUrl"
      and host: "URL_hostname sourceUrl = Some sourceHost"
  proof -
    from host assms(3) have ne: "sourceUrl \<noteq> []" by auto
    with src have "js_or (origin req) (referer req) = Some sourceUrl"
      by (auto simp: js_or_def truthy_def split: option.splits)
    with ne host have "createCheckOriginMiddleware URL_hostname allowedOrigins requestUrl req =
        (if list_ex (origin_entry_matches URL_hostname sourceHost) allowedOrigins
         then Next else unauthorized_origin)"
      by (simp add: mode)
    also have "list_ex (origin_entry_matches URL_hostname sourceHost) allowedOrigins \<longleftrightarrow>
        (\<exists>e \<in> set allowedOrigins.
           (\<exists>h. URL_hostname e = Some h \<and> sourceHost = h)
           \<or> (URL_hostname e = None \<and> sourceHost = e))"
      unfolding list_ex_iff entry_matches_iff ..
    finally show ?thesis
      by (simp only: unauthorized_origin_def error_body_def)
  qed
  from absent present show ?thesis by blast
qed

theorem allowlist_mode_decision_witness:
  "createCheckOriginMiddleware example_URL_hostname
      [''asus-press-cms.tenten.dev'', ''http://localhost:8055''] ''http://localhost:8055'' example_request = Next
   \<and> createCheckOriginMiddleware example_URL_hostname
      [''asus-press-cms.tenten.dev'', ''http://localhost:8055''] ''http://localhost:8055''
      (example_request\<lparr>origin := Some ''https://asus-press-cms.tenten.dev''\<rparr>) = Next
   \<and> createCheckOriginMiddleware example_URL_hostname
      [''asus-press-cms.tenten.dev'', ''http://localhost:8055''] ''http://localhost:8055''
      (example_request\<lparr>referer := Some ''http://localhost:8055''\<rparr>) = Next
   \<and> createCheckOriginMiddleware example_URL_hostname
      [''asus-press-cms.tenten.dev'', ''http://localhost:8055''] ''http://localhost:8055''
      (example_request\<lparr>origin := Some ''https://malicious-site.com''\<rparr>) =
        Send 403 (JObj [(''error'', JStr ''Access denied: unauthorized origin.'')])"
  using allowlist_mode_decision
      [where allowedOrigins = "[''asus-press-cms.tenten.dev'', ''http://localhost:8055'']"
         and req = example_request and URL_hostname = example_URL_hostname
         and requestUrl = "''http://localhost:8055''"]
    allowlist_mode_decision
      [where allowedOrigins = "[''asus-press-cms.tenten.dev'', ''http://localhost:8055'']"
         and req = "example_request\<lparr>origin := Some ''https://asus-press-cms.tenten.dev''\<rparr>"
         and URL_hostname = example_URL_hostname and requestUrl = "''http://localhost:8055''"
         and sourceUrl = "''https://asus-press-cms.tenten.dev''" and sourceHost = "''asus-press-cms.tenten.dev''"]
    allowlist_mode_decision
      [where allowedOrigins = "[''asus-press-cms.tenten.dev'', ''http://localhost:8055'']"
         and req = "example_request\<lparr>referer := Some ''http://localhost:8055''\<rparr>"
         and URL_hostname = example_URL_hostname and requestUrl = "''http://localhost:8055''"
         and sourceUrl = "''http://localhost:8055''" and sourceHost = "''localhost''"]
    allowlist_mode_decision
      [where allowedOrigins = "[''asus-press-cms.tenten.dev'', ''http://localhost:8055'']"
         and req = "example_request\<lparr>origin := Some ''https://malicious-site.com''\<rparr>"
         and URL_hostname = example_URL_hostname and requestUrl = "''http://localhost:8055''"
         and sourceUrl = "''https://malicious-site.com''" and sourceHost = "''malicious-site.com''"]
  by (simp add: example_request_def example_URL_hostname_def)

section \<open>Independence of the path and the body\<close>

text \<open>
  C10. Two requests with the same method and the same Origin, Referer and Content-Type
  headers (each absent in both or present with the same value) get the same outcome
  under the same list of allowed origins and the same base URL, whatever their paths
  and bodies are.
\<close>

theorem check_origin_noninterference:
  assumes "method' r1 = method' r2"
    and "origin r1 = origin r2"
    and "referer r1 = referer r2"
    and "content_type r1 = content_type r2"
  shows "createCheckOriginMiddleware URL_hostname allowedOrigins requestUrl r1 =
         createCheckOriginMiddleware URL_hostname allowedOrigins requestUrl r2"
  using assms unfolding createCheckOriginMiddleware_def by (simp add: Let_def)

theorem check_origin_noninterference_witness:
  "createCheckOriginMiddleware example_URL_hostname [''asus-press-cms.tenten.dev''] ''http://localhost:8055''
     (example_request\<lparr>origin := Some ''https://malicious-site.com''\<rparr>) =
   createCheckOriginMiddleware example_URL_hostname [''asus-press-cms.tenten.dev''] ''http://localhost:8055''
     (example_request\<lparr>originalUrl := ''/graphql'', origin := Some ''https://malicious-site.com'',
        body := Some (JObj [(''query'', JStr ''{ __typename }'')])\<rparr>)"
  using check_origin_noninterference
    [of "example_request\<lparr>origin := Some ''https://malicious-site.com''\<rparr>"
        "example_request\<lparr>originalUrl := ''/graphql'', origin := Some ''https://malicious-site.com'',
           body := Some (JObj [(''query'', JStr ''{ __typename }'')])\<rparr>"
        example_URL_hostname "[''asus-press-cms.tenten.dev'']" "''http://localhost:8055''"]
  by (simp add: example_request_def)

section \<open>The body property checks\<close>

lemma list_all_allowed_iff:
  "list_all (\<lambda>prop. prop \<in> set allowedProps) props \<longleftrightarrow> \<not> (\<exists>k \<in> set props. k \<notin> set allowedProps)"
  by (auto simp: list_all_iff)

text \<open>
  C7. Each of the two checks answers with status 400 and the body
  \<^verbatim>\<open>{ "error": "Request contains invalid properties." }\<close> exactly when a key of the
  parsed body lies outside the route's set: query, variables and operationName for the
  GraphQL route, email, password and mode for the login route. Otherwise the request is
  passed on. The keys of a body that is an object are the keys of its entries, and an
  absent or empty body is passed on.
\<close>

theorem body_property_allowlist:
  "createGraphQLPropertyValidation req =
     (if \<exists>k \<in> set (Object_keys (body_or_empty (body req))).
            k \<notin> {''query'', ''variables'', ''operationName''}
      then Send 400 (JObj [(''error'', JStr ''Request contains invalid properties.'')])
      else Next)
   \<and> createAuthLoginPropertyValidation req =
     (if \<exists>k \<in> set (Object_keys (body_or_empty (body req))).
            k \<notin> {''email'', ''password'', ''mode''}
      then Send 400 (JObj [(''error'', JStr ''Request contains invalid properties.'')])
      else Next)
   \<and> (body req = Some (JObj kvs) \<longrightarrow>
        set (Object_keys (body_or_empty (body req))) = fst ` set kvs)
   \<and> (body req = None \<or> body req = Some (JObj []) \<longrightarrow>
        createGraphQLPropertyValidation req = Next \<and> createAuthLoginPropertyValidation req = Next)"
proof -
  have g: "createGraphQLPropertyValidation req =
     (if \<exists>k \<in> set (Object_keys (body_or_empty (body req))).
            k \<notin> {''query'', ''variables'', ''operationName''}
      then Send 400 (JObj [(''error'', JStr ''Request contains invalid properties.'')])
      else Next)"
    unfolding createGraphQLPropertyValidation_def Let_def list_all_allowed_iff
    by (simp add: invalid_properties_def error_body_def)
  have a: "createAuthLoginPropertyValidation req =
     (if \<exists>k \<in> set (Object_keys (body_or_empty (body req))).
            k \<notin> {''email'', ''password'', ''mode''}
      then Send 400 (JObj [(''error'', JStr ''Request contains invalid properties.'')])
      else Next)"
    unfolding createAuthLoginPropertyValidation_def Let_def list_all_allowed_iff
    by (simp add: invalid_properties_def error_body_def)
  have k: "set (Object_keys (body_or_empty (body req))) = fst ` set kvs"
    if "body req = Some (JObj kvs)"
    using that by (simp add: body_or_empty_def)
  have e: "Object_keys (body_or_empty (body req)) = []"
    if "body req = None \<or> body req = Some (JObj [])"
    using that by (auto simp: body_or_empty_def)
  have v: "createGraphQLPropertyValidation req = Next \<and> createAuthLoginPropertyValidation req = Next"
    if "body req = None \<or> body req = Some (JObj [])"
    using e [OF that] unfolding g a by simp
  from g a k v show ?thesis by blast
qed

theorem body_property_allowlist_witness:
  "createAuthLoginPropertyValidation
     (example_request\<lparr>body := Some (JObj [(''email'', JStr ''test@test.com''), (''password'', JStr ''test''),
                                              (''malicious'', JStr ''property'')])\<rparr>) =
     Send 400 (JObj [(''error'', JStr ''Request contains invalid properties.'')])
   \<and> createGraphQLPropertyValidation
     (example_request\<lparr>body := Some (JObj [(''email'', JStr ''test@test.com''), (''password'', JStr ''test''),
                                              (''malicious'', JStr ''property'')])\<rparr>) =
     Send 400 (JObj [(''error'', JStr ''Request contains invalid properties.'')])
   \<and> createAuthLoginPropertyValidation (example_request\<lparr>body := Some (JObj [])\<rparr>) = Next
   \<and> createGraphQLPropertyValidation (example_request\<lparr>body := Some (JObj [])\<rparr>) = Next"
  using body_property_allowlist [of "example_request\<lparr>body := Some (JObj [(''email'', JStr ''test@test.com''),
            (''password'', JStr ''test''), (''malicious'', JStr ''property'')])\<rparr>"
          "[(''email'', JStr ''test@test.com''), (''password'', JStr ''test''), (''malicious'', JStr ''property'')]"]
        body_property_allowlist [of "example_request\<lparr>body := Some (JObj [])\<rparr>" "[]"]
  by (simp add: body_or_empty_def)

section \<open>The status rewriter at the moment the body is sent\<close>

text \<open>
  C8. The handler installs a \<^verbatim>\<open>send\<close> and calls \<^verbatim>\<open>next()\<close>. When the installed \<^verbatim>\<open>send\<close>
  is called and the status code is 403, the status code becomes 404 and the body handed
  to the original \<^verbatim>\<open>send\<close> is the envelope with the message \<^verbatim>\<open>Not found.\<close>, the code
  \<^verbatim>\<open>ROUTE_NOT_FOUND\<close> and the request's original URL as path. With any other status
  code the response and the body reach the original \<^verbatim>\<open>send\<close> unchanged.
\<close>

theorem status_rewrite:
  "(statusCode res = 403 \<longrightarrow>
      fst (createStatusRewriteMiddleware originalSend req) res b =
        originalSend (res\<lparr>statusCode := 404\<rparr>)
          (Some (JObj [(''errors'',
             JArr [JObj [(''message'', JStr ''Not found.''),
                         (''extensions'', JObj [(''code'', JStr ''ROUTE_NOT_FOUND''),
                                                (''path'', JStr (originalUrl req))])]])])))
   \<and> (statusCode res \<noteq> 403 \<longrightarrow>
      fst (createStatusRewriteMiddleware originalSend req) res b = originalSend res b)
   \<and> snd (createStatusRewriteMiddleware originalSend req) = Next"
  by (simp add: createStatusRewriteMiddleware_def rewritten_send_def NotFoundError_message_def)

theorem status_rewrite_witness:
  "fst (createStatusRewriteMiddleware example_send (example_request\<lparr>originalUrl := ''/items/secret''\<rparr>))
     \<lparr>statusCode = 403\<rparr> (Some (JObj [(''error'', JStr ''Access denied: unauthorized origin.'')])) =
     (404, Some (JObj [(''errors'',
             JArr [JObj [(''message'', JStr ''Not found.''),
                         (''extensions'', JObj [(''code'', JStr ''ROUTE_NOT_FOUND''),
                                                (''path'', JStr ''/items/secret'')])]])]))
   \<and> fst (createStatusRewriteMiddleware example_send (example_request\<lparr>originalUrl := ''/items/secret''\<rparr>))
     \<lparr>statusCode = 400\<rparr> (Some (JObj [(''error'', JStr ''Invalid endpoint.'')])) =
     (400, Some (JObj [(''error'', JStr ''Invalid endpoint.'')]))"
  using status_rewrite [of "\<lparr>statusCode = 403\<rparr>" example_send "example_request\<lparr>originalUrl := ''/items/secret''\<rparr>"
           "Some (JObj [(''error'', JStr ''Access denied: unauthorized origin.'')])"]
        status_rewrite [of "\<lparr>statusCode = 400\<rparr>" example_send "example_request\<lparr>originalUrl := ''/items/secret''\<rparr>"
           "Some (JObj [(''error'', JStr ''Invalid endpoint.'')])"]
  by (simp add: example_send_def example_request_def)

section \<open>Source URLs that do not parse\<close>

text \<open>
  C4, as amended. Allowlist mode, for a request whose method is not safe. The source
  URL is the Origin header when it has a non-empty value, else the Referer header. When
  the source URL is not empty and does not parse, the request is answered with status
  403 and the body \<^verbatim>\<open>{ "error": "Access denied: unauthorized origin." }\<close>. A header
  with an empty value counts as absent: when each of the two headers is absent or
  empty, the request is passed on.
\<close>

theorem unparseable_source_rejected:
  assumes "allowedOrigins \<noteq> []"
    and "method' req \<notin> {''GET'', ''HEAD'', ''OPTIONS''}"
  shows "((case origin req of
             Some v \<Rightarrow> if v \<noteq> [] then Some v else referer req
           | None \<Rightarrow> referer req) = Some sourceUrl
          \<and> sourceUrl \<noteq> [] \<and> URL_hostname sourceUrl = None \<longrightarrow>
          createCheckOriginMiddleware URL_hostname allowedOrigins requestUrl req =
            Send 403 (JObj [(''error'', JStr ''Access denied: unauthorized origin.'')]))
       \<and> ((origin req = None \<or> origin req = Some []) \<and> (referer req = None \<or> referer req = Some []) \<longrightarrow>
          createCheckOriginMiddleware URL_hostname allowedOrigins requestUrl req = Next)"
proof -
  have unsafe: "method' req \<notin> set SAFE_METHODS"
    using assms(2) by (simp add: unsafe_method_iff)
  note mode = allowlist_mode [OF assms(1) unsafe, of URL_hostname requestUrl]
  have src: "js_or (origin req) (referer req) =
      (case origin req of Some v \<Rightarrow> if v \<noteq> [] then Some v else referer req | None \<Rightarrow> referer req)"
    by (simp add: js_or_def truthy_def split: option.splits)
  have reject: "createCheckOriginMiddleware URL_hostname allowedOrigins requestUrl req =
            Send 403 (JObj [(''error'', JStr ''Access denied: unauthorized origin.'')])"
    if "(case origin req of Some v \<Rightarrow> if v \<noteq> [] then Some v else referer req | None \<Rightarrow> referer req)
          = Some sourceUrl"
      and "sourceUrl \<noteq> []" and "URL_hostname sourceUrl = None"
    using that by (simp add: mode src unauthorized_origin_def error_body_def)
  have pass: "createCheckOriginMiddleware URL_hostname allowedOrigins requestUrl req = Next"
    if "(origin req = None \<or> origin req = Some []) \<and> (referer req = None \<or> referer req = Some [])"
    using that by (auto simp: mode src)
  from reject pass show ?thesis by blast
qed

theorem unparseable_source_rejected_witness:
  "createCheckOriginMiddleware example_URL_hostname [''asus-press-cms.tenten.dev''] ''http://localhost:8055''
       (example_request\<lparr>origin := Some ''not a url''\<rparr>) =
     Send 403 (JObj [(''error'', JStr ''Access denied: unauthorized origin.'')])
   \<and> createCheckOriginMiddleware example_URL_hostname [''asus-press-cms.tenten.dev''] ''http://localhost:8055''
       (example_request\<lparr>referer := Some ''not a url''\<rparr>) =
     Send 403 (JObj [(''error'', JStr ''Access denied: unauthorized origin.'')])
   \<and> createCheckOriginMiddleware example_URL_hostname [''asus-press-cms.tenten.dev''] ''http://localhost:8055''
       (example_request\<lparr>origin := Some [], referer := Some []\<rparr>) = Next"
  using unparseable_source_rejected
      [where allowedOrigins = "[''asus-press-cms.tenten.dev'']"
         and req = "example_request\<lparr>origin := Some ''not a url''\<rparr>"
         and URL_hostname = example_URL_hostname and requestUrl = "''http://localhost:8055''"
         and sourceUrl = "''not a url''"]
    unparseable_source_rejected
      [where allowedOrigins = "[''asus-press-cms.tenten.dev'']"
         and req = "example_request\<lparr>referer := Some ''not a url''\<rparr>"
         and URL_hostname = example_URL_hostname and requestUrl = "''http://localhost:8055''"
         and sourceUrl = "''not a url''"]
    unparseable_source_rejected
      [where allowedOrigins = "[''asus-press-cms.tenten.dev'']"
         and req = "example_request\<lparr>origin := Some [], referer := Some []\<rparr>"
         and URL_hostname = example_URL_hostname and requestUrl = "''http://localhost:8055''"]
  by (simp add: example_request_def example_URL_hostname_def)

text \<open>
  The claim without the amendment fails where the Origin header has an empty value and
  there is no Referer header: the source URL is the empty string, which does not parse,
  and the guard \<^verbatim>\<open>!origin && !referer\<close> passes the request on.
\<close>

theorem unparseable_source_counterexample:
  "method' example_request = ''POST''
   \<and> example_URL_hostname [] = None
   \<and> createCheckOriginMiddleware example_URL_hostname [''asus-press-cms.tenten.dev''] ''http://localhost:8055''
       (example_request\<lparr>origin := Some []\<rparr>) = Next"
  by (simp add: example_request_def example_URL_hostname_def createCheckOriginMiddleware_def
        SAFE_METHODS_def truthy_def)

section \<open>Precedence of the Origin header\<close>

text \<open>
  C5, as amended. Allowlist mode. Two requests whose methods are not safe and whose
  Origin headers hold the same non-empty value get the same outcome, whatever their
  Referer headers are. The Referer header is read when the Origin header is absent or
  empty.
\<close>

theorem origin_precedence:
  assumes "allowedOrigins \<noteq> []"
    and "method' r1 \<notin> {''GET'', ''HEAD'', ''OPTIONS''}"
    and "method' r2 \<notin> {''GET'', ''HEAD'', ''OPTIONS''}"
    and "origin r1 = Some v" and "origin r2 = Some v" and "v \<noteq> []"
  shows "createCheckOriginMiddleware URL_hostname allowedOrigins requestUrl r1 =
         createCheckOriginMiddleware URL_hostname allowedOrigins requestUrl r2"
proof -
  have "js_or (Some v) f = Some v" for f
    using assms(6) by (simp add: js_or_def truthy_def)
  with assms(4,5) have "js_or (origin r1) (referer r1) = js_or (origin r2) (referer r2)"
    by simp
  moreover have "method' r1 \<notin> set SAFE_METHODS" and "method' r2 \<notin> set SAFE_METHODS"
    using assms(2,3) by (simp_all add: unsafe_method_iff)
  ultimately show ?thesis
    using assms(1) by (simp add: allowlist_mode)
qed

theorem origin_precedence_witness:
  "createCheckOriginMiddleware example_URL_hostname [''asus-press-cms.tenten.dev''] ''http://localhost:8055''
       (example_request\<lparr>origin := Some ''https://asus-press-cms.tenten.dev'',
                         referer := Some ''https://malicious-site.com''\<rparr>) =
   createCheckOriginMiddleware example_URL_hostname [''asus-press-cms.tenten.dev''] ''http://localhost:8055''
       (example_request\<lparr>origin := Some ''https://asus-press-cms.tenten.dev''\<rparr>)
   \<and> createCheckOriginMiddleware example_URL_hostname [''asus-press-cms.tenten.dev''] ''http://localhost:8055''
       (example_request\<lparr>origin := Some ''https://asus-press-cms.tenten.dev'',
                         referer := Some ''https://malicious-site.com''\<rparr>) = Next"
  using origin_precedence
      [where allowedOrigins = "[''asus-press-cms.tenten.dev'']"
         and ?r1.0 = "example_request\<lparr>origin := Some ''https://asus-press-cms.tenten.dev'',
                         referer := Some ''https://malicious-site.com''\<rparr>"
         and ?r2.0 = "example_request\<lparr>origin := Some ''https://asus-press-cms.tenten.dev''\<rparr>"
         and v = "''https://asus-press-cms.tenten.dev''"
         and URL_hostname = example_URL_hostname and requestUrl = "''http://localhost:8055''"]
  by (simp add: example_request_def example_URL_hostname_def createCheckOriginMiddleware_def
        SAFE_METHODS_def truthy_def js_or_def origin_entry_matches_def)

text \<open>
  With an Origin header of empty value the outcome follows the Referer header: of two
  requests that differ in the Referer header only, one is passed on and the other is
  answered with status 403.
\<close>

theorem origin_precedence_counterexample:
  "createCheckOriginMiddleware example_URL_hostname [''asus-press-cms.tenten.dev''] ''http://localhost:8055''
       (example_request\<lparr>origin := Some [], referer := Some ''https://asus-press-cms.tenten.dev''\<rparr>) = Next
   \<and> createCheckOriginMiddleware example_URL_hostname [''asus-press-cms.tenten.dev''] ''http://localhost:8055''
       (example_request\<lparr>origin := Some [], referer := Some ''https://malicious-site.com''\<rparr>) =
     Send 403 (JObj [(''error'', JStr ''Access denied: unauthorized origin.'')])"
  by (simp add: example_request_def example_URL_hostname_def createCheckOriginMiddleware_def
        SAFE_METHODS_def truthy_def js_or_def origin_entry_matches_def unauthorized_origin_def
        error_body_def)

section \<open>CSRF mode\<close>

text \<open>
  A header contains a form content type without regard to case when one of its
  substrings is equal to the type after lower-casing; this is what the test on the
  lower-cased header decides.
\<close>

lemma sublist_map_iff:
  "sublist t (map f c) \<longleftrightarrow> (\<exists>w. sublist w c \<and> map f w = t)"
proof
  assume "sublist t (map f c)"
  then obtain ps ss where eq: "map f c = ps @ t @ ss"
    by (auto simp: sublist_def)
  define w where "w = take (length t) (drop (length ps) c)"
  have "map f w = take (length t) (drop (length ps) (map f c))"
    by (simp add: w_def take_map drop_map)
  also have "\<dots> = t"
    by (simp add: eq)
  finally have "map f w = t" .
  moreover have "c = take (length ps) c @ w @ drop (length t) (drop (length ps) c)"
    unfolding w_def by (simp only: append_take_drop_id)
  then have "sublist w c"
    unfolding sublist_def by blast
  ultimately show "\<exists>w. sublist w c \<and> map f w = t" by blast
next
  assume "\<exists>w. sublist w c \<and> map f w = t"
  then show "sublist t (map f c)"
    by (auto intro: map_mono_sublist)
qed

lemma form_content_types_lower:
  "toLowerCase ''application/x-www-form-urlencoded'' = ''application/x-www-form-urlencoded''"
  "toLowerCase ''multipart/form-data'' = ''multipart/form-data''"
  "toLowerCase ''text/plain'' = ''text/plain''"
  by code_simp+

lemma hasFormLikeHeader_iff:
  "hasFormLikeHeader ct \<longleftrightarrow>
     (\<exists>c. ct = Some c \<and>
        (\<exists>t \<in> {''application/x-www-form-urlencoded'', ''multipart/form-data'', ''text/plain''}.
           \<exists>w. sublist w c \<and> toLowerCase w = toLowerCase t))"
proof (cases ct)
  case None
  then show ?thesis by (simp add: hasFormLikeHeader_def)
next
  case (Some c)
  have low: "sublist t (toLowerCase c) \<longleftrightarrow> (\<exists>w. sublist w c \<and> toLowerCase w = t)" for t
    unfolding toLowerCase_def by (rule sublist_map_iff)
  show ?thesis
  proof (cases "c = []")
    case True
    with Some show ?thesis
      by (simp add: hasFormLikeHeader_def form_content_types_lower toLowerCase_def)
  next
    case False
    with Some show ?thesis
      by (simp add: hasFormLikeHeader_def FORM_CONTENT_TYPES_def str_includes_def low
            form_content_types_lower)
  qed
qed

lemma hasFormLikeHeader_examples:
  "hasFormLikeHeader (Some ''application/x-www-form-urlencoded'')"
  "hasFormLikeHeader (Some ''Multipart/Form-Data; boundary=----WebKitFormBoundary'')"
  "\<not> hasFormLikeHeader (Some ''application/json'')"
  "\<not> hasFormLikeHeader (Some [])"
  by code_simp+

text \<open>
  C2, as amended. CSRF mode (the list of allowed origins is empty), for a request whose
  method is not safe. An Origin header that is absent or has an empty value: passed on.
  An Origin header equal to the base URL: passed on, whatever the content type. An
  Origin header with a non-empty value other than the base URL, and a Content-Type
  header that is absent, has an empty value, or contains one of the three form content
  types without regard to case: answered with status 403 and the body
  \<^verbatim>\<open>{ "error": "Cross-site <METHOD> form submissions are forbidden" }\<close>. Such an Origin
  header and a Content-Type header with a non-empty value that contains none of the
  three: passed on.
\<close>

theorem csrf_mode_decision:
  assumes "method' req \<notin> {''GET'', ''HEAD'', ''OPTIONS''}"
  shows "(origin req = None \<or> origin req = Some [] \<longrightarrow>
            createCheckOriginMiddleware URL_hostname [] requestUrl req = Next)
       \<and> (origin req = Some requestUrl \<longrightarrow>
            createCheckOriginMiddleware URL_hostname [] requestUrl req = Next)
       \<and> (origin req = Some v \<and> v \<noteq> [] \<and> v \<noteq> requestUrl
            \<and> (content_type req = None \<or> content_type req = Some []
                 \<or> (\<exists>c. content_type req = Some c \<and>
                       (\<exists>t \<in> {''application/x-www-form-urlencoded'', ''multipart/form-data'',
                                 ''text/plain''}.
                          \<exists>w. sublist w c \<and> toLowerCase w = toLowerCase t))) \<longrightarrow>
            createCheckOriginMiddleware URL_hostname [] requestUrl req =
              Send 403 (JObj [(''error'',
                JStr (''Cross-site '' @ method' req @ '' form submissions are forbidden''))]))
       \<and> (origin req = Some v \<and> v \<noteq> [] \<and> v \<noteq> requestUrl
            \<and> content_type req = Some c \<and> c \<noteq> []
            \<and> \<not> (\<exists>t \<in> {''application/x-www-form-urlencoded'', ''multipart/form-data'',
                            ''text/plain''}.
                     \<exists>w. sublist w c \<and> toLowerCase w = toLowerCase t) \<longrightarrow>
            createCheckOriginMiddleware URL_hostname [] requestUrl req = Next)"
proof -
  have unsafe: "method' req \<notin> set SAFE_METHODS"
    using assms by (simp add: unsafe_method_iff)
  note mode = csrf_mode [OF unsafe, of URL_hostname requestUrl]
  have no_origin: "createCheckOriginMiddleware URL_hostname [] requestUrl req = Next"
    if "origin req = None \<or> origin req = Some []"
    using that by (auto simp: mode truthy_def)
  have same: "createCheckOriginMiddleware URL_hostname [] requestUrl req = Next"
    if "origin req = Some requestUrl"
    using that by (simp add: mode)
  have cross: "\<not> (\<not> truthy (origin req) \<or> origin req = Some requestUrl)"
    if "origin req = Some v" and "v \<noteq> []" and "v \<noteq> requestUrl"
    using that by (simp add: truthy_def)
  have reject: "createCheckOriginMiddleware URL_hostname [] requestUrl req =
              Send 403 (JObj [(''error'',
                JStr (''Cross-site '' @ method' req @ '' form submissions are forbidden''))])"
    if o: "origin req = Some v" "v \<noteq> []" "v \<noteq> requestUrl"
      and ct: "content_type req = None \<or> content_type req = Some []
                 \<or> (\<exists>c. content_type req = Some c \<and>
                       (\<exists>t \<in> {''application/x-www-form-urlencoded'', ''multipart/form-data'',
                                 ''text/plain''}.
                          \<exists>w. sublist w c \<and> toLowerCase w = toLowerCase t))"
  proof -
    from ct have "\<not> truthy (content_type req) \<or> hasFormLikeHeader (content_type req)"
      unfolding hasFormLikeHeader_iff by (auto simp: truthy_def)
    with cross [OF o] show ?thesis
      by (auto simp: mode cross_site_forbidden_def error_body_def)
  qed
  have pass: "createCheckOriginMiddleware URL_hostname [] requestUrl req = Next"
    if o: "origin req = Some v" "v \<noteq> []" "v \<noteq> requestUrl"
      and ct: "content_type req = Some c" "c \<noteq> []"
      and nf: "\<not> (\<exists>t \<in> {''application/x-www-form-urlencoded'', ''multipart/form-data'',
                            ''text/plain''}.
                     \<exists>w. sublist w c \<and> toLowerCase w = toLowerCase t)"
  proof -
    from ct nf have "truthy (content_type req) \<and> \<not> hasFormLikeHeader (content_type req)"
      unfolding hasFormLikeHeader_iff by (simp add: truthy_def)
    with cross [OF o] show ?thesis
      by (simp add: mode)
  qed
  from no_origin same reject pass show ?thesis by blast
qed

theorem csrf_mode_decision_witness:
  "createCheckOriginMiddleware example_URL_hostname [] ''http://localhost:8055'' example_request = Next
   \<and> createCheckOriginMiddleware example_URL_hostname [] ''http://localhost:8055''
       (example_request\<lparr>origin := Some ''http://localhost:8055'',
          content_type := Some ''application/x-www-form-urlencoded''\<rparr>) = Next
   \<and> createCheckOriginMiddleware example_URL_hostname [] ''http://localhost:8055''
       (example_request\<lparr>origin := Some ''https://malicious-site.com'',
          content_type := Some ''Multipart/Form-Data; boundary=----WebKitFormBoundary''\<rparr>) =
     Send 403 (JObj [(''error'', JStr ''Cross-site POST form submissions are forbidden'')])
   \<and> createCheckOriginMiddleware example_URL_hostname [] ''http://localhost:8055''
       (example_request\<lparr>origin := Some ''https://malicious-site.com''\<rparr>) =
     Send 403 (JObj [(''error'', JStr ''Cross-site POST form submissions are forbidden'')])
   \<and> createCheckOriginMiddleware example_URL_hostname [] ''http://localhost:8055''
       (example_request\<lparr>origin := Some ''https://malicious-site.com'',
          content_type := Some ''application/json''\<rparr>) = Next"
proof -
  have form: "\<exists>c. Some ''Multipart/Form-Data; boundary=----WebKitFormBoundary'' = Some c \<and>
       (\<exists>t \<in> {''application/x-www-form-urlencoded'', ''multipart/form-data'', ''text/plain''}.
          \<exists>w. sublist w c \<and> toLowerCase w = toLowerCase t)"
    using hasFormLikeHeader_examples(2) unfolding hasFormLikeHeader_iff .
  have json: "\<not> (\<exists>t \<in> {''application/x-www-form-urlencoded'', ''multipart/form-data'', ''text/plain''}.
          \<exists>w. sublist w ''application/json'' \<and> toLowerCase w = toLowerCase t)"
    using hasFormLikeHeader_examples(3) unfolding hasFormLikeHeader_iff by simp
  have m: "method' r \<notin> {''GET'', ''HEAD'', ''OPTIONS''}" if "method' r = ''POST''" for r
    using that by simp
  note t = csrf_mode_decision [where URL_hostname = example_URL_hostname
               and requestUrl = "''http://localhost:8055''"]
  have 1: "createCheckOriginMiddleware example_URL_hostname [] ''http://localhost:8055'' example_request = Next"
    using t [where req = example_request, OF m] by (simp add: example_request_def)
  have 2: "createCheckOriginMiddleware example_URL_hostname [] ''http://localhost:8055''
       (example_request\<lparr>origin := Some ''http://localhost:8055'',
          content_type := Some ''application/x-www-form-urlencoded''\<rparr>) = Next"
    using t [where req = "example_request\<lparr>origin := Some ''http://localhost:8055'',
          content_type := Some ''application/x-www-form-urlencoded''\<rparr>", OF m]
    by (simp add: example_request_def)
  have 3: "createCheckOriginMiddleware example_URL_hostname [] ''http://localhost:8055''
       (example_request\<lparr>origin := Some ''https://malicious-site.com'',
          content_type := Some ''Multipart/Form-Data; boundary=----WebKitFormBoundary''\<rparr>) =
     Send 403 (JObj [(''error'', JStr ''Cross-site POST form submissions are forbidden'')])"
    using form t [where req = "example_request\<lparr>origin := Some ''https://malicious-site.com'',
          content_type := Some ''Multipart/Form-Data; boundary=----WebKitFormBoundary''\<rparr>"
          and v = "''https://malicious-site.com''", OF m]
    by (simp add: example_request_def)
  have 4: "createCheckOriginMiddleware example_URL_hostname [] ''http://localhost:8055''
       (example_request\<lparr>origin := Some ''https://malicious-site.com''\<rparr>) =
     Send 403 (JObj [(''error'', JStr ''Cross-site POST form submissions are forbidden'')])"
    using t [where req = "example_request\<lparr>origin := Some ''https://malicious-site.com''\<rparr>"
          and v = "''https://malicious-site.com''", OF m]
    by (simp add: example_request_def)
  have 5: "createCheckOriginMiddleware example_URL_hostname [] ''http://localhost:8055''
       (example_request\<lparr>origin := Some ''https://malicious-site.com'',
          content_type := Some ''application/json''\<rparr>) = Next"
    using json t [where req = "example_request\<lparr>origin := Some ''https://malicious-site.com'',
          content_type := Some ''application/json''\<rparr>"
          and v = "''https://malicious-site.com''" and c = "''application/json''", OF m]
    by (simp add: example_request_def)
  from 1 2 3 4 5 show ?thesis by blast
qed

text \<open>
  The claim without the amendment fails at two requests. A cross-origin request whose
  Content-Type header has an empty value (a present header that contains no form
  content type) is answered with status 403. A request whose Origin header has an empty
  value, which differs from the base URL, and which has no Content-Type header is
  passed on.
\<close>

theorem csrf_mode_decision_counterexample:
  "content_type (example_request\<lparr>origin := Some ''https://malicious-site.com'', content_type := Some []\<rparr>)
     = Some []
   \<and> \<not> hasFormLikeHeader (Some [])
   \<and> createCheckOriginMiddleware example_URL_hostname [] ''http://localhost:8055''
       (example_request\<lparr>origin := Some ''https://malicious-site.com'', content_type := Some []\<rparr>) =
     Send 403 (JObj [(''error'', JStr ''Cross-site POST form submissions are forbidden'')])
   \<and> createCheckOriginMiddleware example_URL_hostname [] ''http://localhost:8055''
       (example_request\<lparr>origin := Some []\<rparr>) = Next"
  by (simp add: example_request_def createCheckOriginMiddleware_def SAFE_METHODS_def truthy_def
        hasFormLikeHeader_def cross_site_forbidden_def error_body_def)

end
